theory Spec2Isabelle
  imports Main
begin

section \<open>The FiveM update script: configuration\<close>

text \<open>
  The update script (the Node.js file with the banner "FiveM Server NodeJS Auto-Update
  Script") is embedded here: its constants, its helper \<open>run\<close>, the regular expression
  that picks the build out of the index document, and \<open>main\<close> with the handler that the
  last line of the file attaches to it. Colours (chalk) are dropped from the console
  text; everything else is kept.
\<close>

definition FIVEM_USER :: string where
  "FIVEM_USER = ''fivem''"

definition BASE_DIR :: string where
  "BASE_DIR = ''/home/'' @ FIVEM_USER"

definition SERVER_DIR :: string where
  "SERVER_DIR = BASE_DIR @ ''/server''"

definition LATEST_URL :: string where
  "LATEST_URL = ''https://runtime.fivem.net/artifacts/fivem/build_proot_linux/master/''"

text \<open>\<open>path.join(a, b)\<close> for a directory without a trailing slash and one plain name.\<close>

definition path_join :: "string \<Rightarrow> string \<Rightarrow> string" where
  "path_join a b = a @ ''/'' @ b"

section \<open>The build pattern\<close>

text \<open>
  The script applies \<^verbatim>\<open>/href="([0-9-a-f]{40,}\/)"/\<close> to the index document and takes
  capture group 1. The class \<^verbatim>\<open>[0-9-a-f]\<close> is the range 0-9, the character \<^verbatim>\<open>-\<close>, and
  the range a-f. The deployment script (\<open>scripts/deploy.js\<close>, lines 82 and 83) applies the
  same pattern in the same way. A document is a list of characters; a character outside
  ASCII is in no part of the pattern, however it is encoded.
\<close>

definition dquote :: char where
  "dquote = CHR 0x22"

definition href_open :: string where
  "href_open = ''href='' @ [dquote]"

definition href_close :: string where
  "href_close = ''/'' @ [dquote]"

definition build_char :: "char \<Rightarrow> bool" where
  "build_char c = (c \<in> set ''0123456789-abcdef'')"

fun strip_prefix :: "string \<Rightarrow> string \<Rightarrow> string option" where
  "strip_prefix [] s = Some s"
| "strip_prefix (p # ps) [] = None"
| "strip_prefix (p # ps) (c # cs) = (if p = c then strip_prefix ps cs else None)"

text \<open>
  A match that starts at the head of \<open>s\<close>. The quantifier \<^verbatim>\<open>{40,}\<close> is greedy: it takes
  the whole run of class characters. Giving characters back never helps, because the
  pattern then wants \<^verbatim>\<open>/\<close> where a class character stands, so the only candidate is the
  whole run, followed by \<^verbatim>\<open>/"\<close>. The result is capture group 1, the run and its slash.
\<close>

definition match_here :: "string \<Rightarrow> string option" where
  "match_here s =
     (case strip_prefix href_open s of
        None \<Rightarrow> None
      | Some r \<Rightarrow>
          (let tok = takeWhile build_char r; rest = dropWhile build_char r
           in if 40 \<le> length tok \<and> strip_prefix href_close rest \<noteq> None
              then Some (tok @ ''/'') else None))"

text \<open>\<open>String.prototype.match\<close> without the g flag: the leftmost start position wins.\<close>

fun regex_match :: "string \<Rightarrow> string option" where
  "regex_match [] = match_here []"
| "regex_match (c # cs) =
     (case match_here (c # cs) of Some g \<Rightarrow> Some g | None \<Rightarrow> regex_match cs)"

section \<open>The world the script acts on\<close>

datatype level = Plain | Info | Success | Error

text \<open>
  How the download of lines 58 to 69 ends. \<open>Finished\<close>: the writer reports \<open>finish\<close>.
  \<open>Request_rejected\<close>: the request of line 59 is refused (no connection, a status that is
  not a success). \<open>Writer_error\<close>: the writer reports an error while the body is piped,
  when the listener of line 68 is attached. \<open>Open_error\<close>: the file cannot be opened, and
  the writer reports it while line 59 still waits for the request, when there is no
  listener yet. \<open>Body_cut\<close>: the response breaks off; \<open>pipe\<close> hands no error of its source to
  the writer, so the writer reports neither \<open>finish\<close> nor an error.
\<close>

datatype stream_end = Finished | Request_rejected | Writer_error | Open_error | Body_cut

datatype event =
    Console level string
  | Console_started int
  | Console_complete int
  | Console_detail
  | Exec string bool
  | Rm_tree string bool
  | Unlink string bool
  | Http_get string bool
  | Http_stream string string stream_end

text \<open>
  \<open>Console\<close> is a line of fixed text; \<open>Console_started\<close> the line with the start time;
  \<open>Console_complete d\<close> the line "Update complete in ... seconds", where \<open>d\<close> is
  \<open>endTime - startTime\<close> in milliseconds (the script prints \<open>d / 1000\<close> with two
  decimals); \<open>Console_detail\<close> a printed error object or captured output. The other
  events are the calls that leave the process, each with whether it succeeded.
\<close>

record world =
  files :: "string set"
  out :: "event list"

datatype body = Text string | Non_text

datatype http_result = Rejected | Response body

text \<open>
  What the script cannot decide itself: the exit status of each shell command and what
  the command does to the set of existing paths, whether a removal is refused and which
  paths of a tree are already gone by then, what the index request returns, how the
  download ends, and the two clock readings.
\<close>

record env =
  exec_ok :: "string \<Rightarrow> bool"
  exec_files :: "string \<Rightarrow> string set \<Rightarrow> string set"
  remove_ok :: "string \<Rightarrow> bool"
  remove_partial :: "string set"
  index_get :: http_result
  stream_result :: "string \<Rightarrow> stream_end"
  clock_start :: int
  clock_end :: int

datatype exn = Exec_error | Fs_error | Http_error | Type_error

text \<open>
  \<open>Ok\<close>: the step returns. \<open>Throw\<close>: it throws, and the nearest handler takes over.
  \<open>Exit n\<close>: the process ends here with exit code \<open>n\<close> and no handler sees it: a call of
  \<open>process.exit(n)\<close>, an error event that nobody listens to (code 1), or an awaited
  promise that never settles (the process ends with code 0 once nothing is left to wait
  for).
\<close>

datatype 'a res = Ok 'a | Throw exn | Exit nat

type_synonym 'a io = "world \<Rightarrow> 'a res \<times> world"

definition ret :: "'a \<Rightarrow> 'a io" where
  "ret x w = (Ok x, w)"

definition throw :: "exn \<Rightarrow> 'a io" where
  "throw e w = (Throw e, w)"

text \<open>\<open>process.exit(n)\<close> ends the process on the spot: no handler sees it.\<close>

definition process_exit :: "nat \<Rightarrow> 'a io" where
  "process_exit n w = (Exit n, w)"

definition bnd :: "'a io \<Rightarrow> ('a \<Rightarrow> 'b io) \<Rightarrow> 'b io" where
  "bnd m f w =
     (case m w of
        (Ok x, w') \<Rightarrow> f x w'
      | (Throw e, w') \<Rightarrow> (Throw e, w')
      | (Exit n, w') \<Rightarrow> (Exit n, w'))"

fun seq :: "unit io list \<Rightarrow> unit io" where
  "seq [] = ret ()"
| "seq (m # ms) = bnd m (\<lambda>_. seq ms)"

text \<open>\<open>try { m } catch (e) { h e }\<close>: only a thrown exception reaches the handler.\<close>

definition try_catch :: "'a io \<Rightarrow> (exn \<Rightarrow> 'a io) \<Rightarrow> 'a io" where
  "try_catch m h w =
     (case m w of
        (Throw e, w') \<Rightarrow> h e w'
      | r \<Rightarrow> r)"

definition emit :: "event \<Rightarrow> unit io" where
  "emit ev w = (Ok (), w\<lparr>out := out w @ [ev]\<rparr>)"

definition when_io :: "(world \<Rightarrow> bool) \<Rightarrow> unit io \<Rightarrow> unit io" where
  "when_io c m w = (if c w then m w else (Ok (), w))"

section \<open>The calls that leave the process\<close>

definition existsSync :: "string \<Rightarrow> world \<Rightarrow> bool" where
  "existsSync p w = (p \<in> files w)"

definition under :: "string \<Rightarrow> string \<Rightarrow> bool" where
  "under p q = (q = p \<or> strip_prefix (p @ ''/'') q \<noteq> None)"

text \<open>
  \<open>fs.rmSync(p, {recursive: true, force: true})\<close>: on success the path and everything
  under it are gone; when it throws, the paths of the tree deleted so far are gone.
\<close>

definition rmSync :: "env \<Rightarrow> string \<Rightarrow> unit io" where
  "rmSync E p w =
     (if remove_ok E p
      then (Ok (), w\<lparr>files := {q \<in> files w. \<not> under p q},
                      out := out w @ [Rm_tree p True]\<rparr>)
      else (Throw Fs_error,
            w\<lparr>files := {q \<in> files w. \<not> (under p q \<and> q \<in> remove_partial E)},
              out := out w @ [Rm_tree p False]\<rparr>))"

definition unlinkSync :: "env \<Rightarrow> string \<Rightarrow> unit io" where
  "unlinkSync E p w =
     (if remove_ok E p
      then (Ok (), w\<lparr>files := files w - {p}, out := out w @ [Unlink p True]\<rparr>)
      else (Throw Fs_error, w\<lparr>out := out w @ [Unlink p False]\<rparr>))"

definition execSync :: "env \<Rightarrow> string \<Rightarrow> unit io" where
  "execSync E command w =
     (let w' = w\<lparr>files := exec_files E command (files w),
                 out := out w @ [Exec command (exec_ok E command)]\<rparr>
      in if exec_ok E command then (Ok (), w') else (Throw Exec_error, w'))"

definition axios_get :: "env \<Rightarrow> string \<Rightarrow> body io" where
  "axios_get E url w =
     (case index_get E of
        Rejected \<Rightarrow> (Throw Http_error, w\<lparr>out := out w @ [Http_get url False]\<rparr>)
      | Response b \<Rightarrow> (Ok b, w\<lparr>out := out w @ [Http_get url True]\<rparr>))"

text \<open>
  Lines 58 to 69: open the write stream on the path, request the URL as a stream, pipe,
  and wait for the writer to finish or fail. Opening the stream creates the file. A
  refused request throws at line 59, and an error of the writer that reaches the
  listener of line 68 rejects the promise of line 66: both reach the catch block. An
  error of the writer before line 68 has no listener: node prints it and the process
  ends with code 1. When the response breaks off, the promise of line 66 never settles:
  nothing more is printed, and the process ends with code 0.
\<close>

definition download :: "env \<Rightarrow> string \<Rightarrow> string \<Rightarrow> unit io" where
  "download E url p w =
     (case stream_result E url of
        Finished \<Rightarrow>
          (Ok (), w\<lparr>files := insert p (files w),
                    out := out w @ [Http_stream url p Finished]\<rparr>)
      | Request_rejected \<Rightarrow>
          (Throw Http_error, w\<lparr>files := insert p (files w),
                               out := out w @ [Http_stream url p Request_rejected]\<rparr>)
      | Writer_error \<Rightarrow>
          (Throw Fs_error, w\<lparr>files := insert p (files w),
                             out := out w @ [Http_stream url p Writer_error]\<rparr>)
      | Open_error \<Rightarrow>
          (Exit 1, w\<lparr>out := out w @ [Http_stream url p Open_error, Console_detail]\<rparr>)
      | Body_cut \<Rightarrow>
          (Exit 0, w\<lparr>files := insert p (files w),
                     out := out w @ [Http_stream url p Body_cut]\<rparr>))"

section \<open>The script\<close>

definition log_info :: "string \<Rightarrow> unit io" where
  "log_info msg = emit (Console Info msg)"

definition log_error :: "string \<Rightarrow> unit io" where
  "log_error msg = emit (Console Error msg)"

definition run :: "env \<Rightarrow> string \<Rightarrow> unit io" where
  "run E command =
     try_catch (execSync E command)
       (\<lambda>e. seq [log_error (''Command failed: '' @ command),
                 emit Console_detail,
                 emit Console_detail,
                 process_exit 1])"

subsection \<open>The console texts of \<open>main\<close>, in the order of the file\<close>

text \<open>
  Each text is the argument of one \<open>log.info\<close>, \<open>log.error\<close> or \<open>console.log\<close> call of
  \<open>main\<close>; they are named so that the steps below stay short.
\<close>

definition msg_banner :: string where
  "msg_banner = CHR 0x0A # ''### FiveM Server NodeJS Auto-Update Script ###''"

definition msg_stopping :: string where
  "msg_stopping = ''Stopping FiveM service...''"

definition msg_removing :: string where
  "msg_removing = ''Removing old server files...''"

definition msg_finding :: string where
  "msg_finding = ''Finding and downloading latest FXServer build...''"

definition msg_extracting :: string where
  "msg_extracting = ''Download complete. Extracting...''"

definition msg_restarting_old :: string where
  "msg_restarting_old = ''Failed to download or extract new FXServer build. Restarting server with old version.''"

definition msg_ownership :: string where
  "msg_ownership = ''Setting ownership for new files...''"

definition msg_starting :: string where
  "msg_starting = ''Starting FiveM service...''"

definition msg_check_status :: string where
  "msg_check_status = ''Check status with: sudo systemctl status fivem''"

definition stop_cmd :: string where
  "stop_cmd = ''sudo systemctl stop fivem''"

definition start_cmd :: string where
  "start_cmd = ''sudo systemctl start fivem''"

definition alpinePath :: string where
  "alpinePath = path_join SERVER_DIR ''alpine''"

definition runShPath :: string where
  "runShPath = path_join SERVER_DIR ''run.sh''"

definition downloadPath :: string where
  "downloadPath = path_join SERVER_DIR ''fx.tar.xz''"

definition tar_cmd :: string where
  "tar_cmd = ''sudo tar -xJf '' @ downloadPath @ '' -C '' @ SERVER_DIR"

definition chown_cmd :: string where
  "chown_cmd = ''sudo chown -R '' @ FIVEM_USER @ '':'' @ FIVEM_USER @ '' '' @ SERVER_DIR"

text \<open>Lines 44 to 48 of \<open>main\<close>: the step the specification calls clearStalePayload.\<close>

definition clearStalePayload :: "env \<Rightarrow> unit io" where
  "clearStalePayload E =
     seq [log_info msg_removing,
          when_io (existsSync alpinePath) (rmSync E alpinePath),
          when_io (existsSync runShPath) (unlinkSync E runShPath)]"

text \<open>
  Line 54: \<open>response.data.match(...)[1]\<close>. Data that is not a string has no \<open>match\<close>,
  and a document without a match gives \<open>null\<close>, whose index 1 cannot be read: both throw
  a TypeError.
\<close>

definition latest_build :: "body \<Rightarrow> string io" where
  "latest_build b =
     (case b of
        Non_text \<Rightarrow> throw Type_error
      | Text doc \<Rightarrow> (case regex_match doc of None \<Rightarrow> throw Type_error | Some g \<Rightarrow> ret g))"

definition downloadUrl :: "string \<Rightarrow> string" where
  "downloadUrl latestBuild = LATEST_URL @ latestBuild @ ''fx.tar.xz''"

text \<open>Lines 52 to 73: the body of the try block.\<close>

definition download_and_extract :: "env \<Rightarrow> unit io" where
  "download_and_extract E =
     bnd (log_info msg_finding) (\<lambda>_.
     bnd (axios_get E LATEST_URL) (\<lambda>response.
     bnd (latest_build response) (\<lambda>latestBuild.
     seq [download E (downloadUrl latestBuild) downloadPath,
          log_info msg_extracting,
          run E tar_cmd,
          unlinkSync E downloadPath])))"

text \<open>Lines 76 to 79: the catch block.\<close>

definition restart_old :: "env \<Rightarrow> exn \<Rightarrow> unit io" where
  "restart_old E e =
     seq [log_error msg_restarting_old,
          emit Console_detail,
          run E start_cmd,
          process_exit 1]"

definition main :: "env \<Rightarrow> unit io" where
  "main E =
     seq [emit (Console Plain msg_banner),
          emit (Console_started (clock_start E)),
          log_info msg_stopping,
          run E stop_cmd,
          clearStalePayload E,
          try_catch (download_and_extract E) (restart_old E),
          log_info msg_ownership,
          run E chown_cmd,
          log_info msg_starting,
          run E start_cmd,
          emit (Console_complete (clock_end E - clock_start E)),
          emit (Console Plain msg_check_status)]"

text \<open>
  Line 96: \<open>main().catch(err => console.error(err))\<close>. A rejection of \<open>main\<close> is printed
  and the process then ends by itself, with exit code 0 as after a normal return; only
  \<open>process.exit(n)\<close> sets another code.
\<close>

definition script :: "env \<Rightarrow> string set \<Rightarrow> unit res \<times> world" where
  "script E fs =
     (case main E \<lparr>files = fs, out = []\<rparr> of
        (Throw e, w) \<Rightarrow> (Throw e, w\<lparr>out := out w @ [Console_detail]\<rparr>)
      | r \<Rightarrow> r)"

fun exit_code :: "unit res \<Rightarrow> nat" where
  "exit_code (Ok _) = 0"
| "exit_code (Throw _) = 0"
| "exit_code (Exit n) = n"

definition trace :: "env \<Rightarrow> string set \<Rightarrow> event list" where
  "trace E fs = out (snd (script E fs))"

definition outcome :: "env \<Rightarrow> string set \<Rightarrow> unit res" where
  "outcome E fs = fst (script E fs)"

section \<open>Reading a run\<close>

datatype service_call = Stop | Start

text \<open>The calls to the service controller in a run, in order, failed ones included.\<close>

fun service_calls :: "event list \<Rightarrow> service_call list" where
  "service_calls [] = []"
| "service_calls (Exec c ok # es) =
     (if c = stop_cmd then Stop # service_calls es
      else if c = start_cmd then Start # service_calls es
      else service_calls es)"
| "service_calls (_ # es) = service_calls es"

text \<open>The events after the first line of the catch block, if the run entered it.\<close>

fun after_recovery :: "event list \<Rightarrow> event list option" where
  "after_recovery [] = None"
| "after_recovery (Console l m # es) =
     (if l = Error \<and> m = msg_restarting_old then Some es else after_recovery es)"
| "after_recovery (_ # es) = after_recovery es"

definition recovery_entered :: "event list \<Rightarrow> bool" where
  "recovery_entered t = (after_recovery t \<noteq> None)"

definition recovery_calls :: "event list \<Rightarrow> service_call list" where
  "recovery_calls t = (case after_recovery t of None \<Rightarrow> [] | Some es \<Rightarrow> service_calls es)"

text \<open>
  The index request was made; the download was started; the download failed (it did not
  end with \<open>finish\<close>); the download failed and the failure reached the catch block.
\<close>

fun index_requested :: "event list \<Rightarrow> bool" where
  "index_requested [] = False"
| "index_requested (Http_get u ok # es) = True"
| "index_requested (_ # es) = index_requested es"

fun fetch_attempted :: "event list \<Rightarrow> bool" where
  "fetch_attempted [] = False"
| "fetch_attempted (Http_stream u p r # es) = True"
| "fetch_attempted (_ # es) = fetch_attempted es"

fun fetch_failed :: "event list \<Rightarrow> bool" where
  "fetch_failed [] = False"
| "fetch_failed (Http_stream u p r # es) = (r \<noteq> Finished \<or> fetch_failed es)"
| "fetch_failed (_ # es) = fetch_failed es"

fun fetch_rejected :: "event list \<Rightarrow> bool" where
  "fetch_rejected [] = False"
| "fetch_rejected (Http_stream u p r # es) =
     (r = Request_rejected \<or> r = Writer_error \<or> fetch_rejected es)"
| "fetch_rejected (_ # es) = fetch_rejected es"

text \<open>The tar command was run and failed; the archive was handed to \<open>unlinkSync\<close>.\<close>

fun extract_failed :: "event list \<Rightarrow> bool" where
  "extract_failed [] = False"
| "extract_failed (Exec c ok # es) = ((c = tar_cmd \<and> \<not> ok) \<or> extract_failed es)"
| "extract_failed (_ # es) = extract_failed es"

fun archive_unlinked :: "event list \<Rightarrow> bool" where
  "archive_unlinked [] = False"
| "archive_unlinked (Unlink p ok # es) = (p = downloadPath \<or> archive_unlinked es)"
| "archive_unlinked (_ # es) = archive_unlinked es"

text \<open>The durations that the run printed in a completion line.\<close>

fun completions :: "event list \<Rightarrow> int list" where
  "completions [] = []"
| "completions (Console_complete d # es) = d # completions es"
| "completions (_ # es) = completions es"

text \<open>
  What lines 53 and 54 make of the index request: the build, or nothing when the request
  is rejected, the data is no string, or the pattern does not match.
\<close>

definition resolved :: "env \<Rightarrow> string option" where
  "resolved E =
     (case index_get E of
        Rejected \<Rightarrow> None
      | Response Non_text \<Rightarrow> None
      | Response (Text doc) \<Rightarrow> regex_match doc)"

definition final_files :: "env \<Rightarrow> string set \<Rightarrow> string set" where
  "final_files E fs = files (snd (script E fs))"

text \<open>
  An event that changes the installed payload: the removal of the \<open>alpine\<close> tree, the
  removal of \<open>run.sh\<close>, the extraction of the archive.
\<close>

fun touches_payload :: "event \<Rightarrow> bool" where
  "touches_payload (Rm_tree p ok) = (p = alpinePath)"
| "touches_payload (Unlink p ok) = (p = runShPath)"
| "touches_payload (Exec c ok) = (c = tar_cmd)"
| "touches_payload _ = False"

text \<open>
  \<open>guarded R pre es\<close>: every event of \<open>es\<close> satisfies \<open>R\<close> with respect to the events before
  it, \<open>pre\<close> being those before \<open>es\<close>.
\<close>

fun guarded :: "(event list \<Rightarrow> event \<Rightarrow> bool) \<Rightarrow> event list \<Rightarrow> event list \<Rightarrow> bool" where
  "guarded R pre [] = True"
| "guarded R pre (ev # es) = (R pre ev \<and> guarded R (pre @ [ev]) es)"

definition order_guard :: "event list \<Rightarrow> event \<Rightarrow> bool" where
  "order_guard pre ev =
     ((touches_payload ev \<longrightarrow>
         Exec stop_cmd True \<in> set pre \<and> Exec start_cmd True \<notin> set pre
         \<and> Exec start_cmd False \<notin> set pre)
      \<and> (\<forall>ok. ev = Exec start_cmd ok \<longrightarrow>
            Exec chown_cmd True \<in> set pre \<or> Console Error msg_restarting_old \<in> set pre)
      \<and> (\<forall>ok. ev = Unlink downloadPath ok \<longrightarrow> Exec tar_cmd True \<in> set pre))"

subsection \<open>The build pattern, read as a statement about the document\<close>

text \<open>
  \<open>occurs doc pre tok post\<close>: after \<open>pre\<close> the document reads \<^verbatim>\<open>href="\<close>, then \<open>tok\<close>, 40
  or more characters of the class, then \<^verbatim>\<open>/"\<close>.
\<close>

definition occurs :: "string \<Rightarrow> string \<Rightarrow> string \<Rightarrow> string \<Rightarrow> bool" where
  "occurs doc pre tok post =
     (doc = pre @ href_open @ tok @ href_close @ post
      \<and> 40 \<le> length tok \<and> (\<forall>c\<in>set tok. build_char c))"

text \<open>
  The specification's wording of the token, for comparison: 40 or more lowercase
  hexadecimal digits.
\<close>

definition spec_hex_char :: "char \<Rightarrow> bool" where
  "spec_hex_char c = (c \<in> set ''0123456789abcdef'')"

definition spec_hex_token :: "string \<Rightarrow> bool" where
  "spec_hex_token tok = (40 \<le> length tok \<and> list_all spec_hex_char tok)"

section \<open>Concrete environments\<close>

text \<open>
  An index document with one entry, named as the build server names its builds (a build
  number, a hyphen, a 40-digit hash), and an environment in which every step succeeds.
\<close>

definition sample_token :: string where
  "sample_token = ''7290-a654bcc2adfa27c4e020fc915a1a6343c3b4f921''"

definition sample_doc :: string where
  "sample_doc = ''<a '' @ href_open @ sample_token @ href_close @ ''>''"

definition env_ok :: env where
  "env_ok =
     \<lparr>exec_ok = (\<lambda>c. True),
      exec_files = (\<lambda>c F. if c = tar_cmd then insert runShPath (insert alpinePath F) else F),
      remove_ok = (\<lambda>p. True),
      remove_partial = {},
      index_get = Response (Text sample_doc),
      stream_result = (\<lambda>u. Finished),
      clock_start = 1000,
      clock_end = 43500\<rparr>"

definition installed :: "string set" where
  "installed = {alpinePath, runShPath}"

text \<open>
  The same, with one step failing: the stop command, the removal of the tree, the
  extraction; with a download whose file cannot be opened, and one whose response breaks
  off; and with an index document that names no build.
\<close>

definition env_stop_fails :: env where
  "env_stop_fails = env_ok\<lparr>exec_ok := (\<lambda>c. c \<noteq> stop_cmd)\<rparr>"

definition env_clear_fails :: env where
  "env_clear_fails = env_ok\<lparr>remove_ok := (\<lambda>p. p \<noteq> alpinePath)\<rparr>"

definition env_open_fails :: env where
  "env_open_fails = env_ok\<lparr>stream_result := (\<lambda>u. Open_error)\<rparr>"

definition env_body_cut :: env where
  "env_body_cut = env_ok\<lparr>stream_result := (\<lambda>u. Body_cut)\<rparr>"

definition env_tar_fails :: env where
  "env_tar_fails = env_ok\<lparr>exec_ok := (\<lambda>c. c \<noteq> tar_cmd), exec_files := (\<lambda>c F. F)\<rparr>"

definition empty_index :: string where
  "empty_index = ''<html><body></body></html>''"

definition env_no_build :: env where
  "env_no_build = env_ok\<lparr>index_get := Response (Text empty_index)\<rparr>"


section \<open>Facts about the constants\<close>

lemma cmd_distinct [simp]:
  "stop_cmd \<noteq> start_cmd" "start_cmd \<noteq> stop_cmd"
  "tar_cmd \<noteq> stop_cmd" "tar_cmd \<noteq> start_cmd"
  "stop_cmd \<noteq> tar_cmd" "start_cmd \<noteq> tar_cmd"
  "chown_cmd \<noteq> stop_cmd" "chown_cmd \<noteq> start_cmd"
  "stop_cmd \<noteq> chown_cmd" "start_cmd \<noteq> chown_cmd"
  "chown_cmd \<noteq> tar_cmd" "tar_cmd \<noteq> chown_cmd"
  by (simp_all add: stop_cmd_def start_cmd_def tar_cmd_def chown_cmd_def downloadPath_def
      path_join_def SERVER_DIR_def BASE_DIR_def FIVEM_USER_def)

lemma path_distinct [simp]:
  "alpinePath \<noteq> runShPath" "runShPath \<noteq> alpinePath"
  "alpinePath \<noteq> downloadPath" "downloadPath \<noteq> alpinePath"
  "runShPath \<noteq> downloadPath" "downloadPath \<noteq> runShPath"
  by (simp_all add: alpinePath_def runShPath_def downloadPath_def path_join_def)

lemma under_self [simp]: "under p p"
  by (simp add: under_def)

lemma not_under_alpine [simp]:
  "\<not> under alpinePath runShPath" "\<not> under alpinePath downloadPath"
  by (simp_all add: under_def alpinePath_def runShPath_def downloadPath_def path_join_def
      SERVER_DIR_def BASE_DIR_def FIVEM_USER_def)

lemma failed_text_distinct [simp]:
  "CHR ''C'' # s \<noteq> msg_restarting_old" "msg_restarting_old \<noteq> CHR ''C'' # s"
  by (simp_all add: msg_restarting_old_def)

section \<open>Facts about the build pattern\<close>

lemma strip_prefix_Some: "strip_prefix p s = Some r \<longleftrightarrow> s = p @ r"
  by (induction p s rule: strip_prefix.induct) auto

lemma strip_prefix_not_None: "strip_prefix p s \<noteq> None \<longleftrightarrow> (\<exists>r. s = p @ r)"
  using strip_prefix_Some [of p s] by auto

lemma slash_not_build_char: "\<not> build_char (CHR ''/'')"
  by (simp add: build_char_def)

text \<open>A run of class characters before \<^verbatim>\<open>/"\<close> is exactly what the greedy quantifier takes.\<close>

lemma run_then_close:
  assumes "\<forall>c\<in>set tok. build_char c"
  shows "takeWhile build_char (tok @ href_close @ post) = tok"
    and "dropWhile build_char (tok @ href_close @ post) = href_close @ post"
  using assms slash_not_build_char
  by (simp_all add: href_close_def)

lemma match_here_Some:
  "match_here s = Some g \<longleftrightarrow> (\<exists>tok post. occurs s [] tok post \<and> g = tok @ ''/'')"
proof
  assume m: "match_here s = Some g"
  then obtain r where r: "s = href_open @ r"
    by (auto simp: match_here_def strip_prefix_Some split: option.splits)
  let ?tok = "takeWhile build_char r"
  from m r have len: "40 \<le> length ?tok" and g: "g = ?tok @ ''/''"
    and close: "strip_prefix href_close (dropWhile build_char r) \<noteq> None"
    by (auto simp: match_here_def strip_prefix_Some Let_def split: option.splits if_splits)
  from close obtain post where "dropWhile build_char r = href_close @ post"
    using strip_prefix_not_None [of href_close "dropWhile build_char r"] by blast
  then have "r = ?tok @ href_close @ post"
    using takeWhile_dropWhile_id [of build_char r] by simp
  moreover have "\<forall>c\<in>set ?tok. build_char c"
    by (auto dest: set_takeWhileD)
  ultimately have "occurs s [] ?tok post"
    using r len by (simp add: occurs_def)
  with g show "\<exists>tok post. occurs s [] tok post \<and> g = tok @ ''/''" by blast
next
  assume "\<exists>tok post. occurs s [] tok post \<and> g = tok @ ''/''"
  then obtain tok post where s: "s = href_open @ tok @ href_close @ post"
    and len: "40 \<le> length tok" and cls: "\<forall>c\<in>set tok. build_char c" and g: "g = tok @ ''/''"
    by (auto simp: occurs_def)
  have "strip_prefix href_open s = Some (tok @ href_close @ post)"
    using s by (simp add: strip_prefix_Some)
  moreover have "strip_prefix href_close (href_close @ post) \<noteq> None"
    using strip_prefix_not_None [of href_close "href_close @ post"] by blast
  ultimately show "match_here s = Some g"
    using len g run_then_close [OF cls, of post] by (simp add: match_here_def)
qed

lemma occurs_Nil: "\<not> occurs [] pre tok post"
  by (simp add: occurs_def href_open_def)

lemma occurs_Cons [simp]:
  "occurs (c # cs) (c' # pre) tok post \<longleftrightarrow> c' = c \<and> occurs cs pre tok post"
  by (auto simp: occurs_def)

lemma regex_match_None:
  "regex_match doc = None \<longleftrightarrow> (\<forall>pre tok post. \<not> occurs doc pre tok post)"
proof (induction doc)
  case Nil
  have "match_here [] = None"
    using match_here_Some [of "[]"] occurs_Nil by (cases "match_here []") auto
  then show ?case by (simp add: occurs_Nil)
next
  case (Cons c cs)
  show ?case
  proof (cases "match_here (c # cs)")
    case None
    then have no_head: "\<not> occurs (c # cs) [] tok post" for tok post
      using match_here_Some [of "c # cs"] by auto
    show ?thesis
    proof
      assume "regex_match (c # cs) = None"
      with None Cons.IH have rest: "\<not> occurs cs pre tok post" for pre tok post by simp
      show "\<forall>pre tok post. \<not> occurs (c # cs) pre tok post"
      proof (intro allI)
        fix pre tok post
        show "\<not> occurs (c # cs) pre tok post"
          using no_head rest by (cases pre) auto
      qed
    next
      assume none: "\<forall>pre tok post. \<not> occurs (c # cs) pre tok post"
      have "\<not> occurs cs pre tok post" for pre tok post
        using none occurs_Cons [of c cs c pre tok post] by blast
      with None Cons.IH show "regex_match (c # cs) = None" by simp
    qed
  next
    case (Some g)
    then obtain tok post where "occurs (c # cs) [] tok post"
      using match_here_Some [of "c # cs" g] by auto
    with Some show ?thesis by auto
  qed
qed

lemma regex_match_Some:
  "regex_match doc = Some g \<Longrightarrow>
     \<exists>pre tok post. occurs doc pre tok post \<and> g = tok @ ''/''
       \<and> (\<forall>pre' tok' post'. occurs doc pre' tok' post' \<longrightarrow> length pre \<le> length pre')"
proof (induction doc)
  case Nil
  then have "match_here [] = Some g" by simp
  then show ?case using match_here_Some [of "[]" g] occurs_Nil by auto
next
  case (Cons c cs)
  show ?case
  proof (cases "match_here (c # cs)")
    case (Some g')
    with Cons.prems have "g' = g" by simp
    with Some obtain tok post where "occurs (c # cs) [] tok post" "g = tok @ ''/''"
      using match_here_Some [of "c # cs" g] by auto
    moreover have "\<forall>pre' tok' post'. occurs (c # cs) pre' tok' post'
        \<longrightarrow> length ([]::string) \<le> length pre'"
      by simp
    ultimately show ?thesis by blast
  next
    case None
    then have no_head: "\<not> occurs (c # cs) [] tok post" for tok post
      using match_here_Some [of "c # cs"] by auto
    from None Cons.prems have "regex_match cs = Some g" by simp
    from Cons.IH [OF this] obtain pre tok post where
      occ: "occurs cs pre tok post" and g: "g = tok @ ''/''"
      and least: "\<forall>pre' tok' post'. occurs cs pre' tok' post' \<longrightarrow> length pre \<le> length pre'"
      by blast
    have "occurs (c # cs) (c # pre) tok post"
      using occ by simp
    moreover have "\<forall>pre' tok' post'. occurs (c # cs) pre' tok' post'
        \<longrightarrow> length (c # pre) \<le> length pre'"
    proof (intro allI impI)
      fix pre' tok' post'
      assume o: "occurs (c # cs) pre' tok' post'"
      show "length (c # pre) \<le> length pre'"
      proof (cases pre')
        case Nil
        with o no_head show ?thesis by simp
      next
        case (Cons d ds)
        with o have "occurs cs ds tok' post'" by simp
        with least have "length pre \<le> length ds" by blast
        with Cons show ?thesis by simp
      qed
    qed
    ultimately show ?thesis using g by blast
  qed
qed

lemma sample_doc_match: "regex_match sample_doc = Some (sample_token @ ''/'')"
  by (simp add: sample_doc_def sample_token_def match_here_def href_open_def href_close_def
      dquote_def build_char_def)

lemma no_build_match: "regex_match empty_index = None"
  by (simp add: empty_index_def match_here_def href_open_def dquote_def)

section \<open>How a run unfolds\<close>

text \<open>\<open>run\<close> either returns or ends the process with code 1; it never throws.\<close>

lemma run_eq:
  "run E c w =
     (if exec_ok E c
      then (Ok (), w\<lparr>files := exec_files E c (files w), out := out w @ [Exec c True]\<rparr>)
      else (Exit 1, w\<lparr>files := exec_files E c (files w),
                      out := out w @ [Exec c False, Console Error (''Command failed: '' @ c),
                                      Console_detail, Console_detail]\<rparr>))"
  by (simp add: run_def try_catch_def execSync_def Let_def bnd_def emit_def log_error_def
      process_exit_def)

lemmas step_defs = ret_def throw_def process_exit_def bnd_def try_catch_def emit_def when_io_def
  existsSync_def rmSync_def unlinkSync_def axios_get_def download_def
  log_info_def log_error_def run_eq clearStalePayload_def latest_build_def
  download_and_extract_def restart_old_def main_def script_def

lemmas env_defs = env_ok_def env_stop_fails_def env_clear_fails_def env_open_fails_def env_body_cut_def
  env_tar_fails_def env_no_build_def installed_def sample_doc_match no_build_match

lemma guarded_split:
  "guarded R p xs \<Longrightarrow> xs = pre @ ev # post \<Longrightarrow> R (p @ pre) ev"
proof (induction pre arbitrary: p xs)
  case Nil
  then show ?case by simp
next
  case (Cons a pre)
  from Cons.prems have "guarded R (p @ [a]) (pre @ ev # post)" by simp
  from Cons.IH [OF this] show ?case by simp
qed

lemma script_order: "case script E fs of (r, w) \<Rightarrow> guarded order_guard [] (out w)"
  by (simp add: step_defs order_guard_def
      split: if_split http_result.split body.split option.split stream_end.split)

lemma script_success_calls:
  "case script E fs of (r, w) \<Rightarrow> r = Ok () \<longrightarrow> service_calls (out w) = [Stop, Start]"
  by (simp add: step_defs split: if_split http_result.split body.split option.split stream_end.split)

lemma script_completions:
  "case script E fs of (r, w) \<Rightarrow>
     completions (out w) = (if r = Ok () then [clock_end E - clock_start E] else [])
     \<and> take 2 (out w) = [Console Plain msg_banner, Console_started (clock_start E)]"
  by (simp add: step_defs split: if_split http_result.split body.split option.split stream_end.split)

text \<open>A download failure that reaches the catch block does restart the service.\<close>

lemma script_fetch_rejected:
  "case script E fs of (r, w) \<Rightarrow>
     fetch_rejected (out w) \<longrightarrow>
       r = Exit 1 \<and> service_calls (out w) = [Stop, Start] \<and> recovery_calls (out w) = [Start]"
  by (simp add: step_defs recovery_calls_def
      split: if_split http_result.split body.split option.split stream_end.split)

lemma script_resolve_failed:
  "case script E fs of (r, w) \<Rightarrow>
     index_requested (out w) \<and> resolved E = None \<longrightarrow>
       r = Exit 1 \<and> service_calls (out w) = [Stop, Start] \<and> recovery_calls (out w) = [Start]
       \<and> \<not> fetch_attempted (out w)"
  by (simp add: step_defs resolved_def recovery_calls_def
      split: if_split http_result.split body.split option.split stream_end.split)

lemma script_extract_failed:
  "case script E fs of (r, w) \<Rightarrow>
     extract_failed (out w) \<longrightarrow>
       r = Exit 1 \<and> service_calls (out w) = [Stop] \<and> \<not> recovery_entered (out w)
       \<and> \<not> archive_unlinked (out w)
       \<and> ((\<forall>F. downloadPath \<in> F \<longrightarrow> downloadPath \<in> exec_files E tar_cmd F)
            \<longrightarrow> downloadPath \<in> files w)"
  by (simp add: step_defs recovery_entered_def
      split: if_split http_result.split body.split option.split stream_end.split)

text \<open>The runs of the concrete environments.\<close>

lemma script_env_ok:
  "script env_ok installed =
     (Ok (),
      \<lparr>files = {runShPath, alpinePath},
       out = [Console Plain msg_banner, Console_started 1000, Console Info msg_stopping,
              Exec stop_cmd True, Console Info msg_removing, Rm_tree alpinePath True,
              Unlink runShPath True, Console Info msg_finding, Http_get LATEST_URL True,
              Http_stream (downloadUrl (sample_token @ ''/'')) downloadPath Finished,
              Console Info msg_extracting, Exec tar_cmd True, Unlink downloadPath True,
              Console Info msg_ownership, Exec chown_cmd True, Console Info msg_starting,
              Exec start_cmd True, Console_complete 42500, Console Plain msg_check_status]\<rparr>)"
  by (auto simp: step_defs env_defs)

lemma script_env_tar_fails:
  "script env_tar_fails installed =
     (Exit 1,
      \<lparr>files = {downloadPath},
       out = [Console Plain msg_banner, Console_started 1000, Console Info msg_stopping,
              Exec stop_cmd True, Console Info msg_removing, Rm_tree alpinePath True,
              Unlink runShPath True, Console Info msg_finding, Http_get LATEST_URL True,
              Http_stream (downloadUrl (sample_token @ ''/'')) downloadPath Finished,
              Console Info msg_extracting, Exec tar_cmd False,
              Console Error (''Command failed: '' @ tar_cmd), Console_detail, Console_detail]\<rparr>)"
  by (auto simp: step_defs env_defs)

lemma script_env_open_fails:
  "script env_open_fails {} =
     (Exit 1,
      \<lparr>files = {},
       out = [Console Plain msg_banner, Console_started 1000, Console Info msg_stopping,
              Exec stop_cmd True, Console Info msg_removing, Console Info msg_finding,
              Http_get LATEST_URL True,
              Http_stream (downloadUrl (sample_token @ ''/'')) downloadPath Open_error,
              Console_detail]\<rparr>)"
  by (auto simp: step_defs env_defs)

lemma script_env_body_cut:
  "script env_body_cut installed =
     (Exit 0,
      \<lparr>files = {downloadPath},
       out = [Console Plain msg_banner, Console_started 1000, Console Info msg_stopping,
              Exec stop_cmd True, Console Info msg_removing, Rm_tree alpinePath True,
              Unlink runShPath True, Console Info msg_finding, Http_get LATEST_URL True,
              Http_stream (downloadUrl (sample_token @ ''/'')) downloadPath Body_cut]\<rparr>)"
  by (auto simp: step_defs env_defs)

lemma script_env_no_build:
  "script env_no_build installed =
     (Exit 1,
      \<lparr>files = {},
       out = [Console Plain msg_banner, Console_started 1000, Console Info msg_stopping,
              Exec stop_cmd True, Console Info msg_removing, Rm_tree alpinePath True,
              Unlink runShPath True, Console Info msg_finding, Http_get LATEST_URL True,
              Console Error msg_restarting_old, Console_detail, Exec start_cmd True]\<rparr>)"
  by (auto simp: step_defs env_defs)

lemma script_env_clear_fails:
  "script env_clear_fails installed =
     (Throw Fs_error,
      \<lparr>files = {alpinePath, runShPath},
       out = [Console Plain msg_banner, Console_started 1000, Console Info msg_stopping,
              Exec stop_cmd True, Console Info msg_removing, Rm_tree alpinePath False,
              Console_detail]\<rparr>)"
  by (auto simp: step_defs env_defs)

lemma script_env_stop_fails:
  "script env_stop_fails installed =
     (Exit 1,
      \<lparr>files = {alpinePath, runShPath},
       out = [Console Plain msg_banner, Console_started 1000, Console Info msg_stopping,
              Exec stop_cmd False, Console Error (''Command failed: '' @ stop_cmd),
              Console_detail, Console_detail]\<rparr>)"
  by (auto simp: step_defs env_defs)

section \<open>The claims\<close>

text \<open>
  C1. In every run, an event that changes the payload (the removal of the \<open>alpine\<close> tree,
  the removal of \<open>run.sh\<close>, the extraction) comes after a stop command that succeeded and
  before any start command, so the service is down whenever the payload is being removed
  or extracted; and a start command is issued only after the ownership command has
  succeeded, or after the catch block has been entered.
\<close>

theorem payload_changes_only_while_stopped:
  assumes "trace E fs = pre @ ev # post"
  shows "(touches_payload ev \<longrightarrow>
            Exec stop_cmd True \<in> set pre \<and> (\<forall>ok. Exec start_cmd ok \<notin> set pre))
         \<and> (\<forall>ok. ev = Exec start_cmd ok \<longrightarrow>
               Exec chown_cmd True \<in> set pre \<or> Console Error msg_restarting_old \<in> set pre)"
proof -
  have "guarded order_guard [] (trace E fs)"
    using script_order [of E fs] by (simp add: trace_def split: prod.splits)
  from guarded_split [OF this assms] have g: "order_guard pre ev" by simp
  have "Exec start_cmd ok \<notin> set pre" if "touches_payload ev" for ok
    using g that by (cases ok) (simp_all add: order_guard_def)
  with g show ?thesis by (simp add: order_guard_def)
qed

theorem payload_changes_only_while_stopped_witness:
  "trace env_ok installed
     = take 5 (trace env_ok installed) @ Rm_tree alpinePath True # drop 6 (trace env_ok installed)
   \<and> touches_payload (Rm_tree alpinePath True)
   \<and> Exec stop_cmd True \<in> set (take 5 (trace env_ok installed))
   \<and> Exec start_cmd True \<notin> set (take 5 (trace env_ok installed))
   \<and> trace env_ok installed
     = take 16 (trace env_ok installed) @ Exec start_cmd True # drop 17 (trace env_ok installed)
   \<and> Exec chown_cmd True \<in> set (take 16 (trace env_ok installed))"
proof -
  have a: "trace env_ok installed
     = take 5 (trace env_ok installed) @ Rm_tree alpinePath True # drop 6 (trace env_ok installed)"
    by (simp add: trace_def script_env_ok)
  have b: "trace env_ok installed
     = take 16 (trace env_ok installed) @ Exec start_cmd True # drop 17 (trace env_ok installed)"
    by (simp add: trace_def script_env_ok)
  have c: "touches_payload (Rm_tree alpinePath True)" by simp
  have d: "Console Error msg_restarting_old \<notin> set (take 16 (trace env_ok installed))"
    by (simp add: trace_def script_env_ok)
  from payload_changes_only_while_stopped [OF a] payload_changes_only_while_stopped [OF b] a b c d
  show ?thesis by blast
qed

text \<open>
  C2, evaluated where the code departs from it. The download succeeds and the tar command
  fails: \<open>run\<close> ends the process itself, the catch block is never entered, and no start
  command is issued.
\<close>

theorem extract_failure_skips_recovery:
  "fetch_attempted (trace env_tar_fails installed)
   \<and> \<not> fetch_failed (trace env_tar_fails installed)
   \<and> extract_failed (trace env_tar_fails installed)
   \<and> \<not> recovery_entered (trace env_tar_fails installed)
   \<and> service_calls (trace env_tar_fails installed) = [Stop]
   \<and> outcome env_tar_fails installed = Exit 1"
  by (simp add: trace_def outcome_def script_env_tar_fails recovery_entered_def)

text \<open>
  C3, evaluated where the code departs from it. On a fresh install the archive cannot be
  opened: the writer reports the error while line 59 waits for the request, the listener
  of line 68 is not attached yet, and the process ends with exit code 1 without entering
  the catch block. With the payload installed and the response breaking off, the promise
  of line 66 never settles and the process ends with exit code 0. In both runs the
  download has failed and no start command is issued.
\<close>

theorem fetch_failure_without_restart:
  "fetch_failed (trace env_open_fails {})
   \<and> \<not> recovery_entered (trace env_open_fails {})
   \<and> service_calls (trace env_open_fails {}) = [Stop]
   \<and> outcome env_open_fails {} = Exit 1
   \<and> fetch_failed (trace env_body_cut installed)
   \<and> \<not> recovery_entered (trace env_body_cut installed)
   \<and> service_calls (trace env_body_cut installed) = [Stop]
   \<and> outcome env_body_cut installed = Exit 0
   \<and> exit_code (outcome env_body_cut installed) = 0"
  by (simp add: trace_def outcome_def script_env_open_fails script_env_body_cut
      recovery_entered_def)

text \<open>
  C4. For every run that completes successfully (\<open>main\<close> returns, having printed its
  completion line), the calls to the service controller are exactly one stop followed by
  one start.
\<close>

theorem success_calls_stop_start:
  "outcome E fs = Ok () \<Longrightarrow> service_calls (trace E fs) = [Stop, Start]"
  using script_success_calls [of E fs]
  by (simp add: outcome_def trace_def split: prod.splits)

theorem success_calls_stop_start_witness:
  "outcome env_ok installed = Ok () \<and> service_calls (trace env_ok installed) = [Stop, Start]"
  using success_calls_stop_start [of env_ok installed]
  by (simp add: outcome_def script_env_ok)

text \<open>
  C5, evaluated where the code departs from it. The stop command succeeds and the removal
  of the \<open>alpine\<close> tree is refused: \<open>main\<close> rejects, the handler of the last line prints the
  error, and the process ends with exit code 0, the service stopped.
\<close>

theorem clearing_failure_exit_code_zero:
  "outcome env_clear_fails installed = Throw Fs_error
   \<and> exit_code (outcome env_clear_fails installed) = 0
   \<and> service_calls (trace env_clear_fails installed) = [Stop]"
  by (simp add: trace_def outcome_def script_env_clear_fails)

text \<open>
  C6, as the code has it. A run prints a duration exactly when it completes successfully,
  once, and the duration is the end reading of the clock minus the start reading, the
  start reading being taken before anything else is done; a run that does not complete
  successfully prints no duration.
\<close>

theorem duration_printed_once_on_success:
  "completions (trace E fs) = (if outcome E fs = Ok () then [clock_end E - clock_start E] else [])
   \<and> take 2 (trace E fs) = [Console Plain msg_banner, Console_started (clock_start E)]"
  using script_completions [of E fs]
  by (simp add: outcome_def trace_def split: prod.splits)

theorem duration_printed_once_on_success_witness:
  "outcome env_ok installed = Ok () \<and> completions (trace env_ok installed) = [42500]"
proof -
  have a: "outcome env_ok installed = Ok ()"
    by (simp add: outcome_def script_env_ok)
  have b: "clock_end env_ok - clock_start env_ok = 42500"
    by (simp add: env_ok_def)
  from duration_printed_once_on_success [of env_ok installed] a b show ?thesis by simp
qed

text \<open>
  C6 as stated fails: a run in which the stop command fails ends with exit code 1 and
  has printed no line with a duration.
\<close>

theorem failed_run_prints_no_duration:
  "outcome env_stop_fails installed = Exit 1
   \<and> length (completions (trace env_stop_fails installed)) \<noteq> 1"
  by (simp add: trace_def outcome_def script_env_stop_fails)

text \<open>
  C7, as the code has it. The resolver takes the leftmost place of the document that reads
  \<^verbatim>\<open>href="\<close>, then 40 or more characters out of the digits, the letters a to f and the
  hyphen, then \<^verbatim>\<open>/"\<close>; the build is that run with its slash, and the download URL is the
  index URL, the build and \<^verbatim>\<open>fx.tar.xz\<close>. When the document has no such place, a
  TypeError is thrown.
\<close>

theorem resolver_takes_leftmost_build:
  "(regex_match doc = None \<longleftrightarrow> (\<forall>pre tok post. \<not> occurs doc pre tok post))
   \<and> (\<forall>g. regex_match doc = Some g \<longrightarrow>
         (\<exists>pre tok post. occurs doc pre tok post \<and> g = tok @ ''/''
            \<and> downloadUrl g = LATEST_URL @ tok @ ''/fx.tar.xz''
            \<and> (\<forall>pre' tok' post'. occurs doc pre' tok' post' \<longrightarrow> length pre \<le> length pre')))
   \<and> latest_build (Text doc) w =
       (case regex_match doc of None \<Rightarrow> (Throw Type_error, w) | Some g \<Rightarrow> (Ok g, w))"
proof (intro conjI allI impI)
  show "regex_match doc = None \<longleftrightarrow> (\<forall>pre tok post. \<not> occurs doc pre tok post)"
    by (rule regex_match_None)
next
  fix g
  assume "regex_match doc = Some g"
  from regex_match_Some [OF this] obtain pre tok post where
    "occurs doc pre tok post" "g = tok @ ''/''"
    "\<forall>pre' tok' post'. occurs doc pre' tok' post' \<longrightarrow> length pre \<le> length pre'"
    by blast
  moreover from this have "downloadUrl g = LATEST_URL @ tok @ ''/fx.tar.xz''"
    by (simp add: downloadUrl_def)
  ultimately show "\<exists>pre tok post. occurs doc pre tok post \<and> g = tok @ ''/''
      \<and> downloadUrl g = LATEST_URL @ tok @ ''/fx.tar.xz''
      \<and> (\<forall>pre' tok' post'. occurs doc pre' tok' post' \<longrightarrow> length pre \<le> length pre')"
    by blast
next
  show "latest_build (Text doc) w =
      (case regex_match doc of None \<Rightarrow> (Throw Type_error, w) | Some g \<Rightarrow> (Ok g, w))"
    by (simp add: latest_build_def throw_def ret_def split: option.splits)
qed

theorem resolver_takes_leftmost_build_witness:
  "regex_match sample_doc = Some (sample_token @ ''/'')
   \<and> occurs sample_doc ''<a '' sample_token ''>''
   \<and> (\<exists>pre tok post. occurs sample_doc pre tok post \<and> sample_token @ ''/'' = tok @ ''/''
         \<and> downloadUrl (sample_token @ ''/'') = LATEST_URL @ tok @ ''/fx.tar.xz''
         \<and> length pre \<le> length ''<a '')
   \<and> regex_match empty_index = None
   \<and> (\<forall>pre tok post. \<not> occurs empty_index pre tok post)"
proof -
  have o: "occurs sample_doc ''<a '' sample_token ''>''"
    by (simp add: occurs_def sample_doc_def sample_token_def build_char_def)
  from resolver_takes_leftmost_build [of sample_doc] sample_doc_match obtain pre tok post where
    "occurs sample_doc pre tok post" "sample_token @ ''/'' = tok @ ''/''"
    "downloadUrl (sample_token @ ''/'') = LATEST_URL @ tok @ ''/fx.tar.xz''"
    "\<forall>pre' tok' post'. occurs sample_doc pre' tok' post' \<longrightarrow> length pre \<le> length pre'"
    by blast
  with o have "\<exists>pre tok post. occurs sample_doc pre tok post \<and> sample_token @ ''/'' = tok @ ''/''
         \<and> downloadUrl (sample_token @ ''/'') = LATEST_URL @ tok @ ''/fx.tar.xz''
         \<and> length pre \<le> length ''<a ''"
    by blast
  moreover have "\<forall>pre tok post. \<not> occurs empty_index pre tok post"
    using resolver_takes_leftmost_build [of empty_index] no_build_match
    by blast
  ultimately show ?thesis using o sample_doc_match no_build_match by blast
qed

text \<open>
  C7 as stated fails: for an entry named as the build server names its builds, the segment
  that the resolver extracts holds a hyphen, so it is no token of lowercase hexadecimal
  digits.
\<close>

theorem extracted_build_not_hex_token:
  "regex_match sample_doc = Some (sample_token @ ''/'') \<and> \<not> spec_hex_token sample_token"
  by (simp add: sample_doc_match spec_hex_token_def spec_hex_char_def sample_token_def)

text \<open>
  C8. When neither the \<open>alpine\<close> tree nor \<open>run.sh\<close> exists, the clearing step returns
  normally and leaves the file system as it is (it only prints its line), whatever the
  environment would answer to a removal; and when the step fails, it fails with the
  error of a removal that the file system refused, on a path that exists.
\<close>

theorem clear_is_noop_when_nothing_installed:
  "(alpinePath \<notin> files w \<and> runShPath \<notin> files w \<longrightarrow>
      clearStalePayload E w = (Ok (), w\<lparr>out := out w @ [Console Info msg_removing]\<rparr>))
   \<and> (fst (clearStalePayload E w) \<noteq> Ok () \<longrightarrow>
        fst (clearStalePayload E w) = Throw Fs_error
        \<and> ((alpinePath \<in> files w \<and> \<not> remove_ok E alpinePath)
             \<or> (runShPath \<in> files w \<and> \<not> remove_ok E runShPath)))"
  by (simp add: clearStalePayload_def log_info_def when_io_def existsSync_def rmSync_def
      unlinkSync_def bnd_def ret_def emit_def)

theorem clear_is_noop_when_nothing_installed_witness:
  "alpinePath \<notin> files \<lparr>files = {}, out = []\<rparr> \<and> runShPath \<notin> files \<lparr>files = {}, out = []\<rparr>
   \<and> \<not> remove_ok env_clear_fails alpinePath
   \<and> clearStalePayload env_clear_fails \<lparr>files = {}, out = []\<rparr>
       = (Ok (), \<lparr>files = {}, out = [Console Info msg_removing]\<rparr>)
   \<and> fst (clearStalePayload env_clear_fails \<lparr>files = installed, out = []\<rparr>) \<noteq> Ok ()
   \<and> fst (clearStalePayload env_clear_fails \<lparr>files = installed, out = []\<rparr>) = Throw Fs_error"
proof -
  have a: "fst (clearStalePayload env_clear_fails \<lparr>files = installed, out = []\<rparr>) \<noteq> Ok ()"
    by (simp add: clearStalePayload_def log_info_def when_io_def existsSync_def rmSync_def
        unlinkSync_def bnd_def ret_def emit_def env_defs)
  have b: "\<not> remove_ok env_clear_fails alpinePath"
    by (simp add: env_defs)
  from clear_is_noop_when_nothing_installed [of "\<lparr>files = {}, out = []\<rparr>" env_clear_fails]
    clear_is_noop_when_nothing_installed [of "\<lparr>files = installed, out = []\<rparr>" env_clear_fails]
    a b
  show ?thesis by simp
qed

text \<open>
  C9. In a run in which the tar command fails, the archive is never handed to
  \<open>unlinkSync\<close>, and, tar itself leaving the archive where it is, the archive exists when
  the process ends. In every run, the archive is handed to \<open>unlinkSync\<close> only after a tar
  command that succeeded.
\<close>

theorem archive_removed_only_after_extraction:
  "(extract_failed (trace E fs) \<longrightarrow>
      \<not> archive_unlinked (trace E fs)
      \<and> ((\<forall>F. downloadPath \<in> F \<longrightarrow> downloadPath \<in> exec_files E tar_cmd F)
           \<longrightarrow> downloadPath \<in> final_files E fs))
   \<and> (\<forall>pre ok post. trace E fs = pre @ Unlink downloadPath ok # post
         \<longrightarrow> Exec tar_cmd True \<in> set pre)"
proof (intro conjI allI impI)
  assume "extract_failed (trace E fs)"
  then show "\<not> archive_unlinked (trace E fs)"
    using script_extract_failed [of E fs] by (simp add: trace_def split: prod.splits)
next
  assume "extract_failed (trace E fs)"
    and "\<forall>F. downloadPath \<in> F \<longrightarrow> downloadPath \<in> exec_files E tar_cmd F"
  then show "downloadPath \<in> final_files E fs"
    using script_extract_failed [of E fs]
    by (simp add: trace_def final_files_def split: prod.splits)
next
  fix pre ok post
  assume t: "trace E fs = pre @ Unlink downloadPath ok # post"
  have "guarded order_guard [] (trace E fs)"
    using script_order [of E fs] by (simp add: trace_def split: prod.splits)
  from guarded_split [OF this t] show "Exec tar_cmd True \<in> set pre"
    by (simp add: order_guard_def)
qed

theorem archive_removed_only_after_extraction_witness:
  "extract_failed (trace env_tar_fails installed)
   \<and> exec_files env_tar_fails tar_cmd {downloadPath} = {downloadPath}
   \<and> \<not> archive_unlinked (trace env_tar_fails installed)
   \<and> downloadPath \<in> final_files env_tar_fails installed
   \<and> trace env_ok installed
       = take 12 (trace env_ok installed) @ Unlink downloadPath True
           # drop 13 (trace env_ok installed)
   \<and> Exec tar_cmd True \<in> set (take 12 (trace env_ok installed))"
proof -
  have a: "extract_failed (trace env_tar_fails installed)"
    by (simp add: trace_def script_env_tar_fails)
  have b: "\<forall>F. downloadPath \<in> F \<longrightarrow> downloadPath \<in> exec_files env_tar_fails tar_cmd F"
    by (simp add: env_defs)
  have c: "trace env_ok installed
       = take 12 (trace env_ok installed) @ Unlink downloadPath True
           # drop 13 (trace env_ok installed)"
    by (simp add: trace_def script_env_ok)
  have d: "exec_files env_tar_fails tar_cmd {downloadPath} = {downloadPath}"
    by (simp add: env_defs)
  from archive_removed_only_after_extraction [of env_tar_fails installed]
    archive_removed_only_after_extraction [of env_ok installed] a b c d
  show ?thesis by blast
qed

text \<open>
  C10. In every run in which the index request was made and gave no build (the request
  was rejected, the data was no string, or the pattern did not match), no download is
  started, the catch block is entered as after a failed download, the service controller
  is called with stop and then, once, in the catch block, with start, and the process ends
  with exit code 1.
\<close>

theorem resolution_failure_recovers:
  assumes "index_requested (trace E fs)" and "resolved E = None"
  shows "\<not> fetch_attempted (trace E fs)
         \<and> service_calls (trace E fs) = [Stop, Start]
         \<and> recovery_calls (trace E fs) = [Start]
         \<and> outcome E fs = Exit 1
         \<and> exit_code (outcome E fs) \<noteq> 0"
  using script_resolve_failed [of E fs] assms
  by (simp add: trace_def outcome_def split: prod.splits)

theorem resolution_failure_recovers_witness:
  "index_requested (trace env_no_build installed) \<and> resolved env_no_build = None
   \<and> service_calls (trace env_no_build installed) = [Stop, Start]
   \<and> recovery_calls (trace env_no_build installed) = [Start]
   \<and> exit_code (outcome env_no_build installed) \<noteq> 0
   \<and> index_requested (trace (env_ok\<lparr>index_get := Rejected\<rparr>) installed)
   \<and> resolved (env_ok\<lparr>index_get := Rejected\<rparr>) = None
   \<and> service_calls (trace (env_ok\<lparr>index_get := Rejected\<rparr>) installed) = [Stop, Start]
   \<and> exit_code (outcome (env_ok\<lparr>index_get := Rejected\<rparr>) installed) \<noteq> 0"
proof -
  have a: "index_requested (trace env_no_build installed)"
    by (simp add: trace_def script_env_no_build)
  have b: "resolved env_no_build = None"
    by (simp add: resolved_def env_defs)
  have c: "index_requested (trace (env_ok\<lparr>index_get := Rejected\<rparr>) installed)"
    by (simp add: trace_def step_defs env_defs)
  have d: "resolved (env_ok\<lparr>index_get := Rejected\<rparr>) = None"
    by (simp add: resolved_def)
  from resolution_failure_recovers [OF a b] resolution_failure_recovers [OF c d] a b c d
  show ?thesis by simp
qed

end
